theory Spec2Isabelle
  imports Complex_Main "HOL-Library.Char_ord" "HOL-Library.List_Lexorder"
begin

section \<open>Data model\<close>

text \<open>
  A transaction table is a pandas DataFrame; it is modelled as the list of its rows, each
  row carrying its index label \<open>idx\<close> (labels may repeat, as they do after an
  un-renumbered concatenation). The columns are typed as the data generator produces them:
  amounts are real numbers (exact arithmetic stands for the floating-point arithmetic of
  numpy, so there is neither NaN nor infinity inside a table), the quantity is an integer,
  and a timestamp is a valid naive date-time, counted in whole seconds since
  1970-01-01 00:00:00, so that \<open>pd.to_datetime\<close> is the identity on it.
  A missing statistic (pandas' NaN or NaT) is \<open>None\<close>; a comparison with it is false.
\<close>

record txn =
  idx :: int
  transaction_id :: string
  timestamp :: int
  store_id :: string
  product_name :: string
  category :: string
  unit_price :: real
  quantity :: int
  subtotal :: real
  tax_amount :: real
  total_amount :: real
  payment_method :: string
  customer_id :: string

text \<open>An anomaly record: the row, its score, and the z-score columns the statistical
  method adds to its copy of the table (absent when the column was not created).\<close>

record anomaly =
  row :: txn
  anomaly_score :: real
  amount_zscore :: "real option"
  quantity_zscore :: "real option"

datatype error = ValueError string | KeyError string

subsection \<open>Timestamps\<close>

definition hour_of :: "int \<Rightarrow> int" where
  "hour_of t = (t mod 86400) div 3600"

definition minute_of :: "int \<Rightarrow> int" where
  "minute_of t = (t mod 3600) div 60"

text \<open>\<open>dt.dayofweek\<close>: Monday is 0; 1970-01-01 was a Thursday.\<close>

definition day_of_week :: "int \<Rightarrow> int" where
  "day_of_week t = (t div 86400 + 3) mod 7"

subsection \<open>Series statistics\<close>

text \<open>\<open>Series.mean\<close>, \<open>Series.std\<close> (sample standard deviation, one degree of freedom
  removed: NaN below two values) and \<open>Series.quantile\<close> (linear interpolation between the
  two nearest order statistics), in exact arithmetic. The exact deviation of a constant
  column is 0; the deviation pandas computes in floating point for such a column is 0 when
  the mean is computed without rounding (11.0, 11.0) and a rounding residue above 0
  otherwise (three times 0.1 give about 1.7e-17). Statements that read the sign of the
  deviation of a constant column are therefore made on the statistics as computed, see
  \<open>statistical_detection_with\<close> below.\<close>

definition mean :: "real list \<Rightarrow> real option" where
  "mean xs = (if xs = [] then None else Some (sum_list xs / real (length xs)))"

definition std :: "real list \<Rightarrow> real option" where
  "std xs =
     (case mean xs of
        None \<Rightarrow> None
      | Some m \<Rightarrow>
          if length xs < 2 then None
          else Some (sqrt (sum_list (map (\<lambda>x. (x - m)\<^sup>2) xs) / real (length xs - 1))))"

definition quantile :: "real list \<Rightarrow> real \<Rightarrow> real option" where
  "quantile xs q =
     (if xs = [] then None
      else
        let s = sort xs;
            pos = q * real (length xs - 1);
            lo = nat \<lfloor>pos\<rfloor>;
            hi = min (lo + 1) (length xs - 1);
            frac = pos - real lo
        in Some (s ! lo + (s ! hi - s ! lo) * frac))"

text \<open>The guarded z-score column: \<open>if std > 0: data[z] = np.abs((col - mean) / std)\<close>.
  The result is the function giving a value its z-score, or \<open>None\<close> when the guard fails
  and the column is not created.\<close>

definition zscore_column :: "real list \<Rightarrow> (real \<Rightarrow> real) option" where
  "zscore_column xs =
     (case (mean xs, std xs) of
        (Some m, Some s) \<Rightarrow> if s > 0 then Some (\<lambda>x. \<bar>(x - m) / s\<bar>) else None
      | _ \<Rightarrow> None)"

subsection \<open>Row selection\<close>

text \<open>\<open>data.loc[labels]\<close>: for each label in turn, every row that carries it.\<close>

definition loc :: "txn list \<Rightarrow> int list \<Rightarrow> txn list" where
  "loc data labels = concat (map (\<lambda>l. filter (\<lambda>r. idx r = l) data) labels)"

text \<open>\<open>sort_values('anomaly_score', ascending=False)\<close>. The order pandas gives to rows of
  equal score is not fixed; the model keeps them in their order of arrival.\<close>

definition sort_by_score :: "anomaly list \<Rightarrow> anomaly list" where
  "sort_by_score xs = sort_key (\<lambda>a. - anomaly_score a) xs"

section \<open>Anomaly detector\<close>

subsection \<open>Feature preparation\<close>

text \<open>\<open>pd.get_dummies\<close>: one indicator column per distinct value, in sorted order.
  The result is row-major: one list of indicators per row.\<close>

definition get_dummies :: "string list \<Rightarrow> real list list" where
  "get_dummies col =
     map (\<lambda>x. map (\<lambda>v. if x = v then 1 else 0) (sort (remdups col))) col"

definition dummies_width :: "string list \<Rightarrow> nat" where
  "dummies_width col = length (sort (remdups col))"

text \<open>The feature table, one row of numbers per transaction. On a typed table no statement
  of the source's try-block raises, and there is no infinite or missing value to replace,
  so the handler that returns an empty table has no trigger here.\<close>

definition prepare_features :: "txn list \<Rightarrow> real list list" where
  "prepare_features data =
     (let category_encoded = get_dummies (map category data);
          store_encoded = get_dummies (map store_id data);
          payment_encoded = get_dummies (map payment_method data);
          numerical = map (\<lambda>r. [total_amount r, real_of_int (quantity r), unit_price r,
                                  subtotal r, tax_amount r,
                                  real_of_int (hour_of (timestamp r)),
                                  real_of_int (day_of_week (timestamp r)),
                                  real_of_int (minute_of (timestamp r))]) data;
          f1 = (if dummies_width (map category data) \<le> 10
                then map2 (@) numerical category_encoded else numerical);
          f2 = (if dummies_width (map store_id data) \<le> 20
                then map2 (@) f1 store_encoded else f1);
          f3 = (if dummies_width (map payment_method data) \<le> 10
                then map2 (@) f2 payment_encoded else f2)
      in f3)"

subsection \<open>Isolation forest\<close>

text \<open>\<open>StandardScaler.fit_transform\<close>: each column is centred and divided by its
  population standard deviation, a zero deviation being replaced by 1.\<close>

definition scale_column :: "real list \<Rightarrow> real list" where
  "scale_column xs =
     (let n = real (length xs);
          m = sum_list xs / n;
          sd = sqrt (sum_list (map (\<lambda>x. (x - m)\<^sup>2) xs) / n);
          sc = (if sd = 0 then 1 else sd)
      in map (\<lambda>x. (x - m) / sc) xs)"

definition fit_transform :: "real list list \<Rightarrow> real list list" where
  "fit_transform rows = transpose (map scale_column (transpose rows))"

text \<open>The fitted forest is scikit-learn's; it is a parameter \<open>forest\<close> of the model:
  from the scaled feature table it gives, row by row, the label of \<open>fit_predict\<close>
  (\<open>-1\<close> for an outlier) and the value of \<open>decision_function\<close>, or \<open>None\<close> when the
  library raises, which the source's handler turns into an empty result. The random state
  is fixed in the source, so the forest is a function of its input. Its answers are paired
  with the rows of the table in order (\<open>data.iloc\<close> on the positions labelled \<open>-1\<close>).\<close>

type_synonym forest = "real list list \<Rightarrow> (int \<times> real) list option"

definition isolation_forest_detection :: "forest \<Rightarrow> txn list \<Rightarrow> real list list \<Rightarrow> anomaly list" where
  "isolation_forest_detection forest data features_df =
     (if length features_df < 10 then []
      else
        case forest (fit_transform features_df) of
          None \<Rightarrow> []
        | Some out \<Rightarrow>
            let anomalies =
                  map (\<lambda>(r, l, s). \<lparr>row = r, anomaly_score = \<bar>s\<bar>,
                                     amount_zscore = None, quantity_zscore = None\<rparr>)
                      (filter (\<lambda>(r, l, s). l = -1) (zip data out))
            in if anomalies = [] then [] else sort_by_score anomalies)"

subsection \<open>Statistical detection\<close>

text \<open>The four rules, each giving the index labels it flags.\<close>

definition amount_rule :: "txn list \<Rightarrow> int list" where
  "amount_rule data =
     (case zscore_column (map total_amount data) of
        None \<Rightarrow> []
      | Some z \<Rightarrow> map idx (filter (\<lambda>r. z (total_amount r) > 3) data))"

definition iqr_rule :: "txn list \<Rightarrow> int list" where
  "iqr_rule data =
     (case (quantile (map total_amount data) (1/4), quantile (map total_amount data) (3/4)) of
        (Some Q1, Some Q3) \<Rightarrow>
          let IQR = Q3 - Q1 in
          if IQR > 0 then
            let lower_bound = Q1 - 3 * IQR; upper_bound = Q3 + 3 * IQR
            in map idx (filter (\<lambda>r. total_amount r < lower_bound \<or> total_amount r > upper_bound) data)
          else []
      | _ \<Rightarrow> [])"

definition quantity_rule :: "txn list \<Rightarrow> int list" where
  "quantity_rule data =
     (case zscore_column (map (\<lambda>r. real_of_int (quantity r)) data) of
        None \<Rightarrow> []
      | Some z \<Rightarrow> map idx (filter (\<lambda>r. z (real_of_int (quantity r)) > 3) data))"

definition time_rule :: "txn list \<Rightarrow> int list" where
  "time_rule data =
     map idx (filter (\<lambda>r. hour_of (timestamp r) < 6 \<or> hour_of (timestamp r) > 23) data)"

text \<open>A label list joins \<open>anomalies_list\<close> only when it is not empty; the union of the
  lists is taken as a set (its order is lost in the final sort); the score is the amount
  z-score when that column exists in the table and 1.0 otherwise.\<close>

definition statistical_detection :: "txn list \<Rightarrow> anomaly list" where
  "statistical_detection data =
     (let az = zscore_column (map total_amount data);
          qz = zscore_column (map (\<lambda>r. real_of_int (quantity r)) data);
          anomalies_list = filter (\<lambda>l. l \<noteq> [])
             [amount_rule data, iqr_rule data, quantity_rule data, time_rule data]
      in if anomalies_list \<noteq> [] then
           let all_anomaly_indices = remdups (concat anomalies_list);
               anomalies = loc data all_anomaly_indices
           in sort_by_score
                (map (\<lambda>r. \<lparr>row = r,
                            anomaly_score =
                              (case az of Some z \<Rightarrow> z (total_amount r) | None \<Rightarrow> 1),
                            amount_zscore = map_option (\<lambda>z. z (total_amount r)) az,
                            quantity_zscore = map_option (\<lambda>z. z (real_of_int (quantity r))) qz\<rparr>)
                     anomalies)
         else [])"

subsection \<open>Statistical detection on the statistics as computed\<close>

text \<open>The statistical method once more, line by line as above, with \<open>Series.mean\<close>
  and \<open>Series.std\<close> taken as parameters: whatever numbers the floating-point
  computation of pandas returns for a column (\<open>None\<close> for NaN), the guard
  \<open>std > 0\<close>, the z-score column and the score are those of the source.
  \<open>statistical_detection\<close> is the instance at the exact statistics.\<close>

type_synonym statistic = "real list \<Rightarrow> real option"

definition zscore_column_with :: "statistic \<Rightarrow> statistic \<Rightarrow> real list \<Rightarrow> (real \<Rightarrow> real) option" where
  "zscore_column_with mean_fp std_fp xs =
     (case (mean_fp xs, std_fp xs) of
        (Some m, Some s) \<Rightarrow> if s > 0 then Some (\<lambda>x. \<bar>(x - m) / s\<bar>) else None
      | _ \<Rightarrow> None)"

definition amount_rule_with :: "statistic \<Rightarrow> statistic \<Rightarrow> txn list \<Rightarrow> int list" where
  "amount_rule_with mean_fp std_fp data =
     (case zscore_column_with mean_fp std_fp (map total_amount data) of
        None \<Rightarrow> []
      | Some z \<Rightarrow> map idx (filter (\<lambda>r. z (total_amount r) > 3) data))"

definition quantity_rule_with :: "statistic \<Rightarrow> statistic \<Rightarrow> txn list \<Rightarrow> int list" where
  "quantity_rule_with mean_fp std_fp data =
     (case zscore_column_with mean_fp std_fp (map (\<lambda>r. real_of_int (quantity r)) data) of
        None \<Rightarrow> []
      | Some z \<Rightarrow> map idx (filter (\<lambda>r. z (real_of_int (quantity r)) > 3) data))"

definition statistical_detection_with :: "statistic \<Rightarrow> statistic \<Rightarrow> txn list \<Rightarrow> anomaly list" where
  "statistical_detection_with mean_fp std_fp data =
     (let az = zscore_column_with mean_fp std_fp (map total_amount data);
          qz = zscore_column_with mean_fp std_fp (map (\<lambda>r. real_of_int (quantity r)) data);
          anomalies_list = filter (\<lambda>l. l \<noteq> [])
             [amount_rule_with mean_fp std_fp data, iqr_rule data,
              quantity_rule_with mean_fp std_fp data, time_rule data]
      in if anomalies_list \<noteq> [] then
           let all_anomaly_indices = remdups (concat anomalies_list);
               anomalies = loc data all_anomaly_indices
           in sort_by_score
                (map (\<lambda>r. \<lparr>row = r,
                            anomaly_score =
                              (case az of Some z \<Rightarrow> z (total_amount r) | None \<Rightarrow> 1),
                            amount_zscore = map_option (\<lambda>z. z (total_amount r)) az,
                            quantity_zscore = map_option (\<lambda>z. z (real_of_int (quantity r))) qz\<rparr>)
                     anomalies)
         else [])"

subsection \<open>The public operation\<close>

definition detect_anomalies :: "forest \<Rightarrow> txn list \<Rightarrow> string \<Rightarrow> error + anomaly list" where
  "detect_anomalies forest data method =
     (if data = [] then Inr []
      else
        let features_df = prepare_features data in
        if features_df = [] then Inr []
        else if method = ''isolation_forest'' then
          Inr (isolation_forest_detection forest data features_df)
        else if method = ''statistical'' then
          Inr (statistical_detection data)
        else if method = ''combined'' then
          (let iso_anomalies = isolation_forest_detection forest data features_df;
               stat_anomalies = statistical_detection data;
               combined_indices = remdups (map (\<lambda>a. idx (row a)) iso_anomalies @
                                           map (\<lambda>a. idx (row a)) stat_anomalies);
               anomalies = loc data combined_indices
           in Inr (map (\<lambda>r. \<lparr>row = r, anomaly_score = 0.8,
                               amount_zscore = None, quantity_zscore = None\<rparr>) anomalies))
        else Inl (ValueError (''Method must be 'isolation_forest', 'statistical', or 'combined'' @ [CHR 0x27])))"

subsection \<open>Single-transaction check\<close>

text \<open>The candidate is a dict or a pandas Series. Each constructor holds what is stored
  under the keys \<open>total_amount\<close>, \<open>quantity\<close> and \<open>category\<close>, \<open>None\<close> for an
  absent key: \<open>dict.get\<close> then takes its default, indexing a Series raises KeyError.\<close>

datatype new_transaction =
    Dict "real option" "real option" "string option"
  | Series "real option" "real option" "string option"

datatype reason = Unusual_amount real | Unusual_quantity real | Unusual_for_category real

text \<open>The returned dict has one of two shapes: \<open>is_anomaly\<close> false with a \<open>reason\<close>
  string, or the full verdict (flag, score, reasons, and the amount, quantity and category
  z-scores).\<close>

datatype verdict =
    Not_anomalous string
  | Scored bool real "reason list" real real real

fun is_anomaly :: "verdict \<Rightarrow> bool" where
  "is_anomaly (Not_anomalous _) = False"
| "is_anomaly (Scored b _ _ _ _ _) = b"

fun error_str :: "error \<Rightarrow> string" where
  "error_str (ValueError m) = m"
| "error_str (KeyError k) = CHR 0x27 # k @ [CHR 0x27]"

definition series_get :: "string \<Rightarrow> 'a option \<Rightarrow> error + 'a" where
  "series_get k v = (case v of None \<Rightarrow> Inl (KeyError k) | Some x \<Rightarrow> Inr x)"

definition dict_get :: "'a option \<Rightarrow> 'a \<Rightarrow> 'a" where
  "dict_get v d = (case v of None \<Rightarrow> d | Some x \<Rightarrow> x)"

fun candidate_fields :: "new_transaction \<Rightarrow> error + (real \<times> real \<times> string)" where
  "candidate_fields (Dict a q c) = Inr (dict_get a 0, dict_get q 0, dict_get c [])"
| "candidate_fields (Series a q c) =
     (case series_get ''total_amount'' a of
        Inl e \<Rightarrow> Inl e
      | Inr amount \<Rightarrow>
          (case series_get ''quantity'' q of
             Inl e \<Rightarrow> Inl e
           | Inr qty \<Rightarrow>
               (case series_get ''category'' c of
                  Inl e \<Rightarrow> Inl e
                | Inr cat \<Rightarrow> Inr (amount, qty, cat))))"

text \<open>\<open>abs((x - mean) / std) if std > 0 else 0\<close>\<close>

definition zscore_of :: "real list \<Rightarrow> real \<Rightarrow> real" where
  "zscore_of hist x = (case zscore_column hist of None \<Rightarrow> 0 | Some z \<Rightarrow> z x)"

text \<open>The body of the try-block: \<open>Inl\<close> is an exception raised inside it.\<close>

definition real_time_body :: "new_transaction \<Rightarrow> txn list \<Rightarrow> real \<Rightarrow> error + verdict" where
  "real_time_body new_txn historical_data threshold_std =
     (case candidate_fields new_txn of
        Inl e \<Rightarrow> Inl e
      | Inr (amount, qty, cat) \<Rightarrow>
          let amount_z = zscore_of (map total_amount historical_data) amount;
              quantity_z = zscore_of (map (\<lambda>r. real_of_int (quantity r)) historical_data) qty;
              category_data = filter (\<lambda>r. category r = cat) historical_data;
              category_z = (if category_data \<noteq> []
                            then zscore_of (map total_amount category_data) amount else 0);
              category_anomaly = (category_data \<noteq> [] \<and> category_z > threshold_std);
              flag = (amount_z > threshold_std \<or> quantity_z > threshold_std \<or> category_anomaly);
              reasons = (if amount_z > threshold_std then [Unusual_amount amount_z] else [])
                      @ (if quantity_z > threshold_std then [Unusual_quantity quantity_z] else [])
                      @ (if category_anomaly then [Unusual_for_category category_z] else [])
          in Inr (Scored flag (max amount_z (max quantity_z category_z)) reasons
                    amount_z quantity_z category_z))"

text \<open>The whole function, with its handler. Its result is again a sum, so that
  "no exception leaves the function" is a statement about it and not a choice of type.\<close>

definition detect_real_time_anomalies :: "new_transaction \<Rightarrow> txn list \<Rightarrow> real \<Rightarrow> error + verdict" where
  "detect_real_time_anomalies new_txn historical_data threshold_std =
     (if historical_data = [] then Inr (Not_anomalous ''No historical data'')
      else
        case real_time_body new_txn historical_data threshold_std of
          Inl e \<Rightarrow> Inr (Not_anomalous (''Error in detection: '' @ error_str e))
        | Inr v \<Rightarrow> Inr v)"

section \<open>Customer segmentation\<close>

subsection \<open>RFM metrics\<close>

record rfm_metrics =
  customer :: string
  recency :: int
  frequency :: nat
  monetary :: real

record rfm =
  metrics :: rfm_metrics
  recency_score :: "nat option"
  frequency_score :: "nat option"
  monetary_score :: "nat option"
  rfm_score :: string

text \<open>\<open>Series.max\<close> of a timestamp column; NaT on an empty one.\<close>

definition series_max :: "int list \<Rightarrow> int option" where
  "series_max xs = (case xs of [] \<Rightarrow> None | x # r \<Rightarrow> Some (fold max r x))"

text \<open>\<open>round(2)\<close>: to two decimals, a tie going to the even neighbour. The exact
  decimal is rounded here; numpy rounds the binary double, which for a value written with
  three decimals ending in 5 can lie on the other side of the tie.\<close>

definition rint :: "real \<Rightarrow> int" where
  "rint x =
     (let f = \<lfloor>x\<rfloor>; d = x - of_int f
      in if d < 1/2 then f else if d > 1/2 then f + 1 else if even f then f else f + 1)"

definition round2 :: "real \<Rightarrow> real" where
  "round2 x = of_int (rint (x * 100)) / 100"

text \<open>Lines 23 to 36 of the source: the table grouped by customer, in the sorted order of
  the customer identifiers. Recency is the \<open>days\<close> attribute of the difference of two
  timestamps, that is the whole days it holds.\<close>

definition rfm_aggregate :: "txn list \<Rightarrow> rfm_metrics list" where
  "rfm_aggregate data =
     (case series_max (map timestamp data) of
        None \<Rightarrow> []
      | Some current_date \<Rightarrow>
          List.map_filter
            (\<lambda>c. let g = filter (\<lambda>r. customer_id r = c) data
                 in case series_max (map timestamp g) of
                      None \<Rightarrow> None
                    | Some latest \<Rightarrow>
                        Some \<lparr>customer = c,
                              recency = (current_date - latest) div 86400,
                              frequency = length g,
                              monetary = round2 (sum_list (map total_amount g))\<rparr>)
            (sort (remdups (map customer_id data))))"

subsection \<open>Quantile scoring\<close>

text \<open>\<open>pd.qcut(x, q, labels, duplicates='drop')\<close> as the pandas library computes it.
  The bin edges are the quantiles at \<open>k / q\<close>; repeated edges are dropped (unless
  there are just two edges); the labels must be distinct, and there must be exactly one
  label per remaining bin, otherwise pandas raises ValueError; a value gets the label
  of the bin \<open>(edge, next edge]\<close> it is in, the lowest edge belonging to the first
  bin. The levels are the exact \<open>k / q\<close> and the interpolation is exact, where
  pandas takes the doubles of \<open>np.linspace\<close> (its fourth level of six is
  0.6000000000000001) and interpolates in floating point: two edges that differ in pandas
  by such a residue coincide here. Where all values of the column are equal, as in the
  table \<open>same_day\<close> below, every edge is that value in both.\<close>

definition unique :: "'a list \<Rightarrow> 'a list" where
  "unique xs = rev (remdups (rev xs))"

definition bin_edges :: "real list \<Rightarrow> nat \<Rightarrow> real option list" where
  "bin_edges xs q = map (\<lambda>k. quantile xs (real k / real q)) [0..<q + 1]"

definition bin_label :: "real list \<Rightarrow> 'l list \<Rightarrow> real \<Rightarrow> 'l option" where
  "bin_label bins labels x =
     (let ids = (if [x] = take 1 bins then 1 else length (filter (\<lambda>b. b < x) bins))
      in if ids = 0 \<or> ids = length bins then None else Some (labels ! (ids - 1)))"

definition qcut :: "real list \<Rightarrow> nat \<Rightarrow> 'l list \<Rightarrow> error + 'l option list" where
  "qcut xs q labels =
     (let bins = bin_edges xs q;
          unique_bins = unique bins;
          bins = (if length unique_bins < length bins \<and> length bins \<noteq> 2
                  then unique_bins else bins)
      in if \<not> distinct labels then
           Inl (ValueError ''labels must be unique if ordered=True; pass ordered=False for duplicate labels'')
         else if length labels \<noteq> length bins - 1 then
           Inl (ValueError ''Bin labels must be one fewer than the number of bin edges'')
         else Inr (map (bin_label (List.map_filter (\<lambda>b. b) bins) labels) xs))"

text \<open>\<open>Series.rank(method='first')\<close>: ranks from 1, equal values ranked in their order
  of appearance.\<close>

definition rank_first :: "real list \<Rightarrow> real list" where
  "rank_first xs =
     map (\<lambda>i. real (1 + length (filter (\<lambda>y. y < xs ! i) xs)
                      + length (filter (\<lambda>y. y = xs ! i) (take i xs))))
         [0..<length xs]"

text \<open>A score column cast to \<open>str\<close>: the digit of the label, \<open>nan\<close> for a missing one.\<close>

definition score_str :: "nat option \<Rightarrow> string" where
  "score_str s = (case s of None \<Rightarrow> ''nan'' | Some n \<Rightarrow> [char_of (48 + n)])"

definition calculate_rfm_metrics :: "txn list \<Rightarrow> error + rfm list" where
  "calculate_rfm_metrics data =
     (if data = [] then Inr []
      else
        let base = rfm_aggregate data in
        case qcut (map (\<lambda>m. real_of_int (recency m)) base) 5 [5, 4, 3, 2, 1::nat] of
          Inl e \<Rightarrow> Inl e
        | Inr rs \<Rightarrow>
            (case qcut (rank_first (map (\<lambda>m. real (frequency m)) base)) 5 [1, 2, 3, 4, 5::nat] of
               Inl e \<Rightarrow> Inl e
             | Inr fs \<Rightarrow>
                 (case qcut (map monetary base) 5 [1, 2, 3, 4, 5::nat] of
                    Inl e \<Rightarrow> Inl e
                  | Inr ms \<Rightarrow>
                      Inr (map (\<lambda>(m, r, f, mo).
                                  \<lparr>metrics = m, recency_score = r, frequency_score = f,
                                   monetary_score = mo,
                                   rfm_score = score_str r @ score_str f @ score_str mo\<rparr>)
                               (zip base (zip rs (zip fs ms)))))))"

subsection \<open>Clustering and segment names\<close>

record segmented =
  rfm_row :: rfm
  cluster :: nat
  segment_name :: "string option"

record cluster_row =
  cluster_id :: nat
  mean_recency :: real
  mean_frequency :: real
  mean_monetary :: real
  n_customers :: nat

record segment_stats =
  customer_count :: nat
  avg_recency :: "real option"
  avg_frequency :: "real option"
  avg_monetary :: "real option"
  total_revenue :: real
  avg_transaction_value :: "real option"
  preferred_categories :: "(string \<times> real) list"
  popular_shopping_hours :: "int list"
  total_transactions :: nat

text \<open>K-means is scikit-learn's and a parameter of the model: from the cluster count
  and the scaled features it gives one cluster label per row, or the exception it raises
  (nothing in \<open>segment_customers\<close> catches it).\<close>

type_synonym kmeans = "nat \<Rightarrow> real list list \<Rightarrow> error + nat list"

definition median :: "real list \<Rightarrow> real option" where
  "median xs =
     (if xs = [] then None
      else
        let s = sort xs; n = length xs
        in Some (if odd n then s ! (n div 2) else (s ! (n div 2 - 1) + s ! (n div 2)) / 2))"

text \<open>\<open>rfm.groupby('cluster').agg(...).round(2)\<close>: one row per cluster that has a
  customer, in ascending order of the cluster label.\<close>

definition cluster_summary :: "(rfm \<times> nat) list \<Rightarrow> cluster_row list" where
  "cluster_summary clustered =
     List.map_filter
       (\<lambda>c. let g = map (\<lambda>p. metrics (fst p)) (filter (\<lambda>p. snd p = c) clustered)
            in case (mean (map (\<lambda>m. real_of_int (recency m)) g),
                     mean (map (\<lambda>m. real (frequency m)) g),
                     mean (map monetary g)) of
                 (Some r, Some f, Some m) \<Rightarrow>
                   Some \<lparr>cluster_id = c, mean_recency = round2 r, mean_frequency = round2 f,
                         mean_monetary = round2 m, n_customers = length g\<rparr>
               | _ \<Rightarrow> None)
       (sort (remdups (map snd clustered)))"

definition segment_label :: "real \<Rightarrow> real \<Rightarrow> real \<Rightarrow> cluster_row \<Rightarrow> string" where
  "segment_label r_med f_med m_med c =
     (if mean_frequency c \<ge> f_med \<and> mean_monetary c \<ge> m_med then
        (if mean_recency c \<le> r_med then ''Champions'' else ''Loyal Customers'')
      else if mean_frequency c \<ge> f_med then
        (if mean_recency c \<le> r_med then ''Potential Loyalists'' else ''At Risk'')
      else if mean_monetary c \<ge> m_med then
        (if mean_recency c \<le> r_med then ''New Customers'' else ''Hibernating'')
      else
        (if mean_recency c \<le> r_med then ''Promising'' else ''Lost Customers''))"

text \<open>The dict of segment names, one entry per row of the cluster summary. The medians
  exist whenever the loop body runs.\<close>

definition assign_segment_names :: "cluster_row list \<Rightarrow> (nat \<times> string) list" where
  "assign_segment_names summary =
     (case (median (map mean_recency summary), median (map mean_frequency summary),
            median (map mean_monetary summary)) of
        (Some r_med, Some f_med, Some m_med) \<Rightarrow>
          map (\<lambda>c. (cluster_id c, segment_label r_med f_med m_med c)) summary
      | _ \<Rightarrow> [])"

text \<open>The per-segment statistics. The two rankings are cut to their first three entries;
  pandas does not fix the order of entries of equal weight, the model keeps them in the
  order of the sorted categories and of the first appearance of an hour.\<close>

definition top3 :: "('a \<times> real) list \<Rightarrow> ('a \<times> real) list" where
  "top3 kvs = take 3 (sort_key (\<lambda>kv. - snd kv) kvs)"

definition calculate_segment_stats :: "segmented list \<Rightarrow> txn list \<Rightarrow> (string \<times> segment_stats) list" where
  "calculate_segment_stats seg original_data =
     (if original_data = [] then []
      else
        List.map_filter
          (\<lambda>name.
             let members = filter (\<lambda>s. segment_name s = Some name) seg;
                 segment_customers = map (\<lambda>s. customer (metrics (rfm_row s))) members;
                 segment_data = filter (\<lambda>r. customer_id r \<in> set segment_customers) original_data
             in if segment_data = [] then None
                else
                  let category_prefs =
                        map (\<lambda>c. (c, sum_list (map total_amount
                                        (filter (\<lambda>r. category r = c) segment_data))))
                            (sort (remdups (map category segment_data)));
                      hours = map (\<lambda>r. hour_of (timestamp r)) segment_data;
                      hour_counts = map (\<lambda>h. (h, real (length (filter (\<lambda>x. x = h) hours))))
                                        (unique hours)
                  in Some (name,
                       \<lparr>customer_count = length segment_customers,
                        avg_recency = mean (map (\<lambda>s. real_of_int (recency (metrics (rfm_row s)))) members),
                        avg_frequency = mean (map (\<lambda>s. real (frequency (metrics (rfm_row s)))) members),
                        avg_monetary = mean (map (\<lambda>s. monetary (metrics (rfm_row s))) members),
                        total_revenue = sum_list (map total_amount segment_data),
                        avg_transaction_value = mean (map total_amount segment_data),
                        preferred_categories = top3 category_prefs,
                        popular_shopping_hours = map fst (top3 hour_counts),
                        total_transactions = length segment_data\<rparr>))
          (unique (List.map_filter segment_name seg)))"

definition segment_customers :: "kmeans \<Rightarrow> txn list \<Rightarrow> nat \<Rightarrow>
    error + (segmented list \<times> (string \<times> segment_stats) list)" where
  "segment_customers kmeans data n_clusters =
     (if data = [] then Inr ([], [])
      else
        case calculate_rfm_metrics data of
          Inl e \<Rightarrow> Inl e
        | Inr rfm \<Rightarrow>
            if rfm = [] \<or> length rfm < n_clusters then Inr ([], [])
            else
              let features = map (\<lambda>r. [real_of_int (recency (metrics r)),
                                         real (frequency (metrics r)),
                                         monetary (metrics r)]) rfm;
                  features_scaled = fit_transform features
              in case kmeans n_clusters features_scaled of
                   Inl e \<Rightarrow> Inl e
                 | Inr cluster_labels \<Rightarrow>
                     if length cluster_labels \<noteq> length rfm then
                       Inl (ValueError ''Length of values does not match length of index'')
                     else
                       let clustered = zip rfm cluster_labels;
                           segment_names = assign_segment_names (cluster_summary clustered);
                           seg = map (\<lambda>(r, c). \<lparr>rfm_row = r, cluster = c,
                                                 segment_name = map_of segment_names c\<rparr>) clustered
                       in Inr (seg, calculate_segment_stats seg data))"

section \<open>Index sets and sample tables\<close>

text \<open>The index labels of a result (\<open>set(result.index)\<close>), and the labels the four
  statistical rules flag between them.\<close>

definition flagged_labels :: "anomaly list \<Rightarrow> int set" where
  "flagged_labels as = (\<lambda>a. idx (row a)) ` set as"

definition stat_labels :: "txn list \<Rightarrow> int set" where
  "stat_labels data =
     set (amount_rule data) \<union> set (iqr_rule data) \<union> set (quantity_rule data) \<union> set (time_rule data)"

text \<open>The two numeric columns the statistical rules read.\<close>

definition amounts :: "txn list \<Rightarrow> real list" where
  "amounts data = map total_amount data"


text \<open>A sale of one unit at a given price with ten percent tax: index label, transaction
  identifier, timestamp, unit price and customer.\<close>

definition sale :: "int \<Rightarrow> string \<Rightarrow> int \<Rightarrow> real \<Rightarrow> string \<Rightarrow> txn" where
  "sale i tid t price cust =
     \<lparr>idx = i, transaction_id = tid, timestamp = t, store_id = ''Store_A'',
      product_name = ''Coffee'', category = ''Food'', unit_price = price, quantity = 1,
      subtotal = price, tax_amount = price / 10, total_amount = price + price / 10,
      payment_method = ''Cash'', customer_id = cust\<rparr>"

text \<open>Two sales of 11.00, the second at 03:00 (2024-01-01).\<close>

definition flat_night :: "txn list" where
  "flat_night = [sale 0 ''TXN_100001'' 1704103200 10 ''CUST_1001'',
                 sale 1 ''TXN_100002'' 1704078000 10 ''CUST_1002'']"

text \<open>Three sales of 110.00, 121.00 and 132.00, the middle one at 03:00.\<close>

definition night :: "txn list" where
  "night = [sale 0 ''TXN_100001'' 1704103200 100 ''CUST_1001'',
            sale 1 ''TXN_100002'' 1704078000 110 ''CUST_1002'',
            sale 2 ''TXN_100003'' 1704106800 120 ''CUST_1003'']"



text \<open>Three sales of 0.10, the middle one at 03:00. The amount held by the program is
  the double nearest to 0.1; for this column pandas computes the mean
  0.10000000000000002 and the deviation 1.6996749443881478e-17, given here by their exact
  values. \<open>mean_as_computed\<close> and \<open>std_as_computed\<close> return these two numbers on this
  column and the exact statistic on every other column (the quantities, all 1, have the
  mean 1 and the deviation 0 in floating point too).\<close>

definition tenth :: real where
  "tenth = 3602879701896397 / 36028797018963968"

definition dimes_mean :: real where
  "dimes_mean = 7205759403792795 / 72057594037927936"

definition dimes_std :: real where
  "dimes_std = 2757880273211543 / 162259276829213363391578010288128"

definition dime :: "int \<Rightarrow> string \<Rightarrow> int \<Rightarrow> string \<Rightarrow> txn" where
  "dime i tid t cust =
     \<lparr>idx = i, transaction_id = tid, timestamp = t, store_id = ''Store_A'',
      product_name = ''Sweet'', category = ''Food'', unit_price = 9 / 100, quantity = 1,
      subtotal = 9 / 100, tax_amount = 1 / 100, total_amount = tenth,
      payment_method = ''Cash'', customer_id = cust\<rparr>"

definition dimes :: "txn list" where
  "dimes = [dime 0 ''TXN_100001'' 1704103200 ''CUST_1001'',
            dime 1 ''TXN_100002'' 1704078000 ''CUST_1002'',
            dime 2 ''TXN_100003'' 1704106800 ''CUST_1003'']"

definition mean_as_computed :: statistic where
  "mean_as_computed xs = (if xs = [tenth, tenth, tenth] then Some dimes_mean else mean xs)"

definition std_as_computed :: statistic where
  "std_as_computed xs = (if xs = [tenth, tenth, tenth] then Some dimes_std else std xs)"

text \<open>Two customers with one sale each: on the same day, and five days apart.\<close>

definition same_day :: "txn list" where
  "same_day = [sale 0 ''TXN_100001'' 1704103200 10 ''CUST_1001'',
               sale 1 ''TXN_100002'' 1704106800 20 ''CUST_1002'']"



section \<open>Auxiliary facts\<close>

subsection \<open>Results as sets of rows and labels\<close>

lemma length_prepare_features: "length (prepare_features data) = length data"
  by (simp add: prepare_features_def get_dummies_def Let_def)

lemma prepare_features_empty_iff: "prepare_features data = [] \<longleftrightarrow> data = []"
  using length_prepare_features [of data] by (metis length_0_conv)

lemma set_sort_by_score: "set (sort_by_score xs) = set xs"
  by (simp add: sort_by_score_def)

lemma set_loc: "set (loc data labels) = {r \<in> set data. idx r \<in> set labels}"
  by (auto simp add: loc_def)

lemma amount_rule_subset: "set (amount_rule data) \<subseteq> idx ` set data"
  by (auto simp add: amount_rule_def split: option.splits)

lemma iqr_rule_subset: "set (iqr_rule data) \<subseteq> idx ` set data"
  by (auto simp add: iqr_rule_def Let_def split: option.splits if_splits)

lemma quantity_rule_subset: "set (quantity_rule data) \<subseteq> idx ` set data"
  by (auto simp add: quantity_rule_def split: option.splits)

lemma time_rule_subset: "set (time_rule data) \<subseteq> idx ` set data"
  by (auto simp add: time_rule_def)

lemma stat_labels_subset: "stat_labels data \<subseteq> idx ` set data"
  using amount_rule_subset iqr_rule_subset quantity_rule_subset time_rule_subset
  unfolding stat_labels_def by blast

lemma set_concat_nonempty: "set (concat (filter (\<lambda>l. l \<noteq> []) ls)) = set (concat ls)"
  by (induction ls) simp_all

lemma filter_nonempty_Nil:
  assumes "filter (\<lambda>l. l \<noteq> []) ls = []"
  shows "set (concat ls) = {}"
proof -
  from assms have "\<forall>l \<in> set ls. l = []"
    by (simp add: filter_empty_conv)
  then show ?thesis by simp
qed

lemma statistical_rows:
  "row ` set (statistical_detection data) = {r \<in> set data. idx r \<in> stat_labels data}"
proof -
  define ls where "ls = [amount_rule data, iqr_rule data, quantity_rule data, time_rule data]"
  have labels: "set (concat ls) = stat_labels data"
    by (simp add: ls_def stat_labels_def Un_assoc)
  show ?thesis
  proof (cases "filter (\<lambda>l. l \<noteq> []) ls = []")
    case True
    then have "statistical_detection data = []"
      by (simp only: statistical_detection_def Let_def ls_def [symmetric] if_False simp_thms)
    moreover from filter_nonempty_Nil [OF True] have "stat_labels data = {}"
      by (simp only: labels)
    ultimately show ?thesis by simp
  next
    case False
    have "set (remdups (concat (filter (\<lambda>l. l \<noteq> []) ls))) = stat_labels data"
      by (simp only: set_remdups set_concat_nonempty labels)
    moreover from False have "row ` set (statistical_detection data)
        = set (loc data (remdups (concat (filter (\<lambda>l. l \<noteq> []) ls))))"
      by (simp only: statistical_detection_def Let_def ls_def [symmetric] if_True simp_thms
             set_sort_by_score set_map image_image anomaly.simps image_ident)
    ultimately show ?thesis by (simp only: set_loc)
  qed
qed

lemma image_restrict: "S \<subseteq> f ` A \<Longrightarrow> f ` {r \<in> A. f r \<in> S} = S"
  by blast

lemma statistical_labels: "flagged_labels (statistical_detection data) = stat_labels data"
proof -
  have "flagged_labels (statistical_detection data) = idx ` row ` set (statistical_detection data)"
    by (simp add: flagged_labels_def image_image)
  also have "\<dots> = idx ` {r \<in> set data. idx r \<in> stat_labels data}"
    by (simp only: statistical_rows)
  also have "\<dots> = stat_labels data"
    by (rule image_restrict [OF stat_labels_subset])
  finally show ?thesis .
qed

lemma isolation_rows_subset:
  "row ` set (isolation_forest_detection forest data f) \<subseteq> set data"
proof (cases "forest (fit_transform f)")
  case None
  then show ?thesis by (simp add: isolation_forest_detection_def)
next
  case (Some out)
  have "row ` set (map (\<lambda>(r, l, s). \<lparr>row = r, anomaly_score = \<bar>s\<bar>,
                                     amount_zscore = None, quantity_zscore = None\<rparr>)
                      (filter (\<lambda>(r, l, s). l = -1) (zip data out))) \<subseteq> set data"
    by (auto dest: set_zip_leftD)
  with Some show ?thesis
    by (simp add: isolation_forest_detection_def Let_def set_sort_by_score del: set_map)
qed

lemma isolation_labels_subset:
  "flagged_labels (isolation_forest_detection forest data f) \<subseteq> idx ` set data"
  using isolation_rows_subset [of forest data f] unfolding flagged_labels_def by blast


subsection \<open>Degenerate statistics\<close>







lemma statistical_member:
  assumes "a \<in> set (statistical_detection data)"
  shows "row a \<in> set data
       \<and> anomaly_score a = (case zscore_column (map total_amount data) of
                               Some z \<Rightarrow> z (total_amount (row a)) | None \<Rightarrow> 1)
       \<and> amount_zscore a = map_option (\<lambda>z. z (total_amount (row a)))
                               (zscore_column (map total_amount data))"
proof -
  define ls where "ls = [amount_rule data, iqr_rule data, quantity_rule data, time_rule data]"
  define F where "F = (\<lambda>r. \<lparr>row = r,
       anomaly_score = (case zscore_column (map total_amount data) of
                          Some z \<Rightarrow> z (total_amount r) | None \<Rightarrow> 1),
       amount_zscore = map_option (\<lambda>z. z (total_amount r)) (zscore_column (map total_amount data)),
       quantity_zscore = map_option (\<lambda>z. z (real_of_int (quantity r)))
                           (zscore_column (map (\<lambda>r. real_of_int (quantity r)) data))\<rparr>)"
  have sd: "statistical_detection data =
      (if filter (\<lambda>l. l \<noteq> []) ls \<noteq> []
       then sort_by_score (map F (loc data (remdups (concat (filter (\<lambda>l. l \<noteq> []) ls)))))
       else [])"
    by (simp only: statistical_detection_def Let_def ls_def F_def)
  from assms have "a \<in> set (map F (loc data (remdups (concat (filter (\<lambda>l. l \<noteq> []) ls)))))"
    unfolding sd by (cases "filter (\<lambda>l. l \<noteq> []) ls = []") (simp_all only: if_True if_False simp_thms set_sort_by_score list.set empty_iff)
  then obtain r where r: "r \<in> set data" and a: "a = F r"
    unfolding set_map set_loc by blast
  have 1: "row (F r) = r"
    and 2: "anomaly_score (F r) = (case zscore_column (map total_amount data) of
                                  Some z \<Rightarrow> z (total_amount r) | None \<Rightarrow> 1)"
    and 3: "amount_zscore (F r) = map_option (\<lambda>z. z (total_amount r))
                                  (zscore_column (map total_amount data))"
    by (simp_all add: F_def)
  show ?thesis unfolding a 1 2 3 using r by blast
qed

subsection \<open>The statistics as computed\<close>

lemma zscore_column_with_exact: "zscore_column_with mean std xs = zscore_column xs"
  by (simp add: zscore_column_with_def zscore_column_def)

lemma statistical_detection_with_exact:
  "statistical_detection_with mean std data = statistical_detection data"
  by (simp only: statistical_detection_with_def statistical_detection_def
        amount_rule_with_def quantity_rule_with_def amount_rule_def quantity_rule_def
        zscore_column_with_exact)

lemma statistical_member_with:
  assumes "a \<in> set (statistical_detection_with mean_fp std_fp data)"
  shows "row a \<in> set data
       \<and> anomaly_score a = (case zscore_column_with mean_fp std_fp (map total_amount data) of
                               Some z \<Rightarrow> z (total_amount (row a)) | None \<Rightarrow> 1)
       \<and> amount_zscore a = map_option (\<lambda>z. z (total_amount (row a)))
                               (zscore_column_with mean_fp std_fp (map total_amount data))"
proof -
  define ls where "ls = [amount_rule_with mean_fp std_fp data, iqr_rule data,
                         quantity_rule_with mean_fp std_fp data, time_rule data]"
  define F where "F = (\<lambda>r. \<lparr>row = r,
       anomaly_score = (case zscore_column_with mean_fp std_fp (map total_amount data) of
                          Some z \<Rightarrow> z (total_amount r) | None \<Rightarrow> 1),
       amount_zscore = map_option (\<lambda>z. z (total_amount r))
                         (zscore_column_with mean_fp std_fp (map total_amount data)),
       quantity_zscore = map_option (\<lambda>z. z (real_of_int (quantity r)))
                           (zscore_column_with mean_fp std_fp
                              (map (\<lambda>r. real_of_int (quantity r)) data))\<rparr>)"
  have sd: "statistical_detection_with mean_fp std_fp data =
      (if filter (\<lambda>l. l \<noteq> []) ls \<noteq> []
       then sort_by_score (map F (loc data (remdups (concat (filter (\<lambda>l. l \<noteq> []) ls)))))
       else [])"
    by (simp only: statistical_detection_with_def Let_def ls_def F_def)
  from assms have "a \<in> set (map F (loc data (remdups (concat (filter (\<lambda>l. l \<noteq> []) ls)))))"
    unfolding sd
    by (cases "filter (\<lambda>l. l \<noteq> []) ls = []")
       (simp_all only: if_True if_False simp_thms set_sort_by_score list.set empty_iff)
  then obtain r where r: "r \<in> set data" and a: "a = F r"
    unfolding set_map set_loc by blast
  have 1: "row (F r) = r"
    and 2: "anomaly_score (F r) =
              (case zscore_column_with mean_fp std_fp (map total_amount data) of
                 Some z \<Rightarrow> z (total_amount r) | None \<Rightarrow> 1)"
    and 3: "amount_zscore (F r) = map_option (\<lambda>z. z (total_amount r))
              (zscore_column_with mean_fp std_fp (map total_amount data))"
    by (simp_all add: F_def)
  show ?thesis unfolding a 1 2 3 using r by blast
qed

subsection \<open>The sample tables, evaluated\<close>

lemma sqrt_121: "sqrt 121 = 11"
  using real_sqrt_mult_self [of 11] by simp


lemma flat_night_stats:
  "mean (map total_amount flat_night) = Some 11 \<and> std (map total_amount flat_night) = Some 0"
  by (simp add: std_def mean_def flat_night_def sale_def)

lemma flat_night_detection:
  "statistical_detection flat_night =
     [\<lparr>row = sale 1 ''TXN_100002'' 1704078000 10 ''CUST_1002'', anomaly_score = 1,
       amount_zscore = None, quantity_zscore = None\<rparr>]"
  by (simp add: statistical_detection_def amount_rule_def iqr_rule_def quantity_rule_def time_rule_def
       zscore_column_def mean_def std_def quantile_def loc_def sort_by_score_def hour_of_def
       flat_night_def sale_def Let_def)

lemma night_stats:
  "mean (map total_amount night) = Some 121 \<and> std (map total_amount night) = Some 11"
  by (simp add: std_def mean_def night_def sale_def sqrt_121)

lemma night_rules:
  "amount_rule night = [] \<and> iqr_rule night = [] \<and> quantity_rule night = [] \<and> time_rule night = [1]"
  by (simp add: amount_rule_def iqr_rule_def quantity_rule_def time_rule_def
       zscore_column_def mean_def std_def quantile_def hour_of_def
       night_def sale_def Let_def sqrt_121)

lemma night_detection:
  "statistical_detection night =
     [\<lparr>row = sale 1 ''TXN_100002'' 1704078000 110 ''CUST_1002'', anomaly_score = 0,
       amount_zscore = Some 0, quantity_zscore = None\<rparr>]"
  by (simp add: statistical_detection_def amount_rule_def iqr_rule_def quantity_rule_def time_rule_def
       zscore_column_def mean_def std_def quantile_def loc_def sort_by_score_def hour_of_def
       night_def sale_def Let_def sqrt_121)

lemma dimes_stats:
  "mean_as_computed (amounts dimes) = Some dimes_mean
   \<and> std_as_computed (amounts dimes) = Some dimes_std \<and> 0 < dimes_std"
  by (simp add: mean_as_computed_def std_as_computed_def amounts_def dimes_def dime_def
        dimes_std_def)

lemma dimes_detection:
  "statistical_detection_with mean_as_computed std_as_computed dimes =
     [\<lparr>row = dime 1 ''TXN_100002'' 1704078000 ''CUST_1002'',
       anomaly_score = \<bar>(tenth - dimes_mean) / dimes_std\<bar>,
       amount_zscore = Some \<bar>(tenth - dimes_mean) / dimes_std\<bar>,
       quantity_zscore = None\<rparr>]"
  by (simp add: statistical_detection_with_def amount_rule_with_def quantity_rule_with_def
        zscore_column_with_def iqr_rule_def time_rule_def mean_as_computed_def
        std_as_computed_def mean_def std_def quantile_def loc_def sort_by_score_def hour_of_def
        dimes_def dime_def tenth_def dimes_mean_def dimes_std_def Let_def)


section \<open>Anomaly detector: the claims\<close>




text \<open>
  C2, as amended. In the result of the statistical method, the anomaly score is chosen for
  the whole table by the presence of the amount z-score column: when the deviation pandas
  computes for the total amounts is above 0 (the column exists), every returned row has
  its own amount z-score as anomaly score, whether or not that z-score exceeded 3 and
  whichever rule flagged the row; when it is not (the deviation is 0 or undefined, no
  column), every returned row has the anomaly score 1.0. The statement is made for
  whatever mean and deviation the floating-point computation returns.
\<close>

theorem statistical_scores:
  assumes "a \<in> set (statistical_detection_with mean_fp std_fp data)"
  shows "(\<forall>m s. mean_fp (amounts data) = Some m \<and> std_fp (amounts data) = Some s \<and> 0 < s
              \<longrightarrow> anomaly_score a = \<bar>(total_amount (row a) - m) / s\<bar>
                \<and> amount_zscore a = Some (anomaly_score a))
       \<and> (\<not> (\<exists>m s. mean_fp (amounts data) = Some m \<and> std_fp (amounts data) = Some s \<and> 0 < s)
              \<longrightarrow> anomaly_score a = 1 \<and> amount_zscore a = None)"
  unfolding amounts_def
proof (intro conjI allI impI)
  fix m s
  assume "mean_fp (map total_amount data) = Some m \<and> std_fp (map total_amount data) = Some s
          \<and> 0 < s"
  then have z: "zscore_column_with mean_fp std_fp (map total_amount data)
                  = Some (\<lambda>x. \<bar>(x - m) / s\<bar>)"
    by (simp add: zscore_column_with_def)
  from statistical_member_with [OF assms] z
  show "anomaly_score a = \<bar>(total_amount (row a) - m) / s\<bar>"
    and "amount_zscore a = Some (anomaly_score a)" by simp_all
next
  assume "\<not> (\<exists>m s. mean_fp (map total_amount data) = Some m
                  \<and> std_fp (map total_amount data) = Some s \<and> 0 < s)"
  then have z: "zscore_column_with mean_fp std_fp (map total_amount data) = None"
    by (auto simp add: zscore_column_with_def split: option.splits)
  from statistical_member_with [OF assms] z
  show "anomaly_score a = 1" and "amount_zscore a = None" by simp_all
qed

text \<open>
  Three instances. On the table \<open>night\<close> with the exact statistics (mean 121, deviation
  11) the returned row has its z-score, 0. On three sales of 0.10 with the statistics as
  pandas computes them (deviation about 1.7e-17, above 0) the column exists and the
  returned row has its z-score, about 0.816. On two sales of 11.00 the deviation is 0, in
  floating point too, and the returned row has the score 1.0.
\<close>

theorem statistical_scores_witness:
  "mean (amounts night) = Some 121 \<and> std (amounts night) = Some 11
   \<and> map anomaly_score (statistical_detection_with mean std night)
       = [\<bar>(total_amount (sale 1 ''TXN_100002'' 1704078000 110 ''CUST_1002'') - 121) / 11\<bar>]
   \<and> mean_as_computed (amounts dimes) = Some dimes_mean
   \<and> std_as_computed (amounts dimes) = Some dimes_std \<and> 0 < dimes_std
   \<and> map anomaly_score (statistical_detection_with mean_as_computed std_as_computed dimes)
       = [\<bar>(total_amount (dime 1 ''TXN_100002'' 1704078000 ''CUST_1002'') - dimes_mean)
            / dimes_std\<bar>]
   \<and> std (amounts flat_night) = Some 0
   \<and> map anomaly_score (statistical_detection_with mean std flat_night) = [1]"
proof -
  let ?a = "\<lparr>row = sale 1 ''TXN_100002'' 1704078000 110 ''CUST_1002'', anomaly_score = 0,
             amount_zscore = Some 0, quantity_zscore = None\<rparr>"
  let ?b = "\<lparr>row = sale 1 ''TXN_100002'' 1704078000 10 ''CUST_1002'', anomaly_score = 1,
             amount_zscore = None, quantity_zscore = None\<rparr>"
  let ?d = "\<lparr>row = dime 1 ''TXN_100002'' 1704078000 ''CUST_1002'',
             anomaly_score = \<bar>(tenth - dimes_mean) / dimes_std\<bar>,
             amount_zscore = Some \<bar>(tenth - dimes_mean) / dimes_std\<bar>,
             quantity_zscore = None\<rparr>"
  have na: "statistical_detection_with mean std night = [?a]"
    by (simp only: statistical_detection_with_exact night_detection)
  have nb: "statistical_detection_with mean std flat_night = [?b]"
    by (simp only: statistical_detection_with_exact flat_night_detection)
  have a: "?a \<in> set (statistical_detection_with mean std night)" by (simp add: na)
  have b: "?b \<in> set (statistical_detection_with mean std flat_night)" by (simp add: nb)
  have d: "?d \<in> set (statistical_detection_with mean_as_computed std_as_computed dimes)"
    by (simp add: dimes_detection)
  have ns: "mean (amounts night) = Some 121 \<and> std (amounts night) = Some 11"
    using night_stats by (simp add: amounts_def)
  have fs: "mean (amounts flat_night) = Some 11 \<and> std (amounts flat_night) = Some 0"
    using flat_night_stats by (simp add: amounts_def)
  have "(0::real) < 11" by simp
  with statistical_scores [OF a] ns
  have 1: "anomaly_score ?a = \<bar>(total_amount (row ?a) - 121) / 11\<bar>" by blast
  from statistical_scores [OF d] dimes_stats
  have 2: "anomaly_score ?d = \<bar>(total_amount (row ?d) - dimes_mean) / dimes_std\<bar>" by blast
  from statistical_scores [OF b] fs
  have 3: "anomaly_score ?b = 1" by simp
  have "map anomaly_score (statistical_detection_with mean std night)
          = [\<bar>(total_amount (sale 1 ''TXN_100002'' 1704078000 110 ''CUST_1002'') - 121) / 11\<bar>]"
    unfolding na using 1 by simp
  moreover have "map anomaly_score
          (statistical_detection_with mean_as_computed std_as_computed dimes)
          = [\<bar>(total_amount (dime 1 ''TXN_100002'' 1704078000 ''CUST_1002'') - dimes_mean)
               / dimes_std\<bar>]"
    unfolding dimes_detection using 2 by simp
  moreover have "map anomaly_score (statistical_detection_with mean std flat_night) = [1]"
    unfolding nb using 3 by simp
  ultimately show ?thesis using ns fs dimes_stats by simp
qed

text \<open>
  C2 as stated fails: of three sales of 110.00, 121.00 and 132.00, the middle one is made
  at 03:00. Only the time-of-day rule flags it, and its anomaly score is its amount
  z-score, 0, not 1.0.
\<close>

theorem flagged_by_time_only_counterexample:
  "amount_rule night = [] \<and> iqr_rule night = [] \<and> quantity_rule night = []
   \<and> time_rule night = [1]
   \<and> statistical_detection night =
       [\<lparr>row = sale 1 ''TXN_100002'' 1704078000 110 ''CUST_1002'', anomaly_score = 0,
         amount_zscore = Some 0, quantity_zscore = None\<rparr>]"
  using night_rules night_detection by simp

text \<open>
  C5. For every transaction table (and every fitted forest), the combined method, the
  isolation-forest method and the statistical method all return, the index labels of the
  combined result are the union of the index labels of the other two, and every row of the
  combined result has the anomaly score 0.8.
\<close>

theorem combined_is_union:
  "\<exists>c i s. detect_anomalies forest data ''combined'' = Inr c
     \<and> detect_anomalies forest data ''isolation_forest'' = Inr i
     \<and> detect_anomalies forest data ''statistical'' = Inr s
     \<and> flagged_labels c = flagged_labels i \<union> flagged_labels s
     \<and> (\<forall>a \<in> set c. anomaly_score a = 0.8)"
proof (cases "data = []")
  case True
  then show ?thesis by (simp add: detect_anomalies_def flagged_labels_def)
next
  case False
  let ?f = "prepare_features data"
  let ?i = "isolation_forest_detection forest data ?f"
  let ?s = "statistical_detection data"
  let ?L = "remdups (map (\<lambda>a. idx (row a)) ?i @ map (\<lambda>a. idx (row a)) ?s)"
  let ?c = "map (\<lambda>r. \<lparr>row = r, anomaly_score = 0.8, amount_zscore = None, quantity_zscore = None\<rparr>) (loc data ?L)"
  from False have ne: "?f \<noteq> []" by (simp add: prepare_features_empty_iff)
  have c: "detect_anomalies forest data ''combined'' = Inr ?c"
    using False ne by (simp add: detect_anomalies_def Let_def)
  have i: "detect_anomalies forest data ''isolation_forest'' = Inr ?i"
    using False ne by (simp add: detect_anomalies_def Let_def)
  have s: "detect_anomalies forest data ''statistical'' = Inr ?s"
    using False ne by (simp add: detect_anomalies_def Let_def)
  have L: "set ?L = flagged_labels ?i \<union> flagged_labels ?s"
    by (simp add: flagged_labels_def)
  have sub: "set ?L \<subseteq> idx ` set data"
    unfolding L using isolation_labels_subset [of forest data ?f] stat_labels_subset [of data]
    by (simp add: statistical_labels)
  have "flagged_labels ?c = idx ` {r \<in> set data. idx r \<in> set ?L}"
    by (simp add: flagged_labels_def image_image set_loc del: set_remdups set_append)
  also have "\<dots> = set ?L" by (rule image_restrict [OF sub])
  finally have u: "flagged_labels ?c = flagged_labels ?i \<union> flagged_labels ?s"
    using L by simp
  have sc: "\<forall>a \<in> set ?c. anomaly_score a = 0.8" by auto
  from c i s u sc show ?thesis by blast
qed

theorem combined_is_union_witness:
  "detect_anomalies (\<lambda>_. None) night ''combined'' =
     Inr [\<lparr>row = sale 1 ''TXN_100002'' 1704078000 110 ''CUST_1002'', anomaly_score = 0.8,
           amount_zscore = None, quantity_zscore = None\<rparr>]
   \<and> detect_anomalies (\<lambda>_. None) night ''isolation_forest'' = Inr []
   \<and> detect_anomalies (\<lambda>_. None) night ''statistical'' =
     Inr [\<lparr>row = sale 1 ''TXN_100002'' 1704078000 110 ''CUST_1002'', anomaly_score = 0,
           amount_zscore = Some 0, quantity_zscore = None\<rparr>]
   \<and> flagged_labels [\<lparr>row = sale 1 ''TXN_100002'' 1704078000 110 ''CUST_1002'',
                         anomaly_score = 0.8, amount_zscore = None, quantity_zscore = None\<rparr>]
     = flagged_labels []
       \<union> flagged_labels [\<lparr>row = sale 1 ''TXN_100002'' 1704078000 110 ''CUST_1002'',
                               anomaly_score = 0, amount_zscore = Some 0, quantity_zscore = None\<rparr>]"
proof -
  let ?c = "[\<lparr>row = sale 1 ''TXN_100002'' 1704078000 110 ''CUST_1002'', anomaly_score = 0.8,
           amount_zscore = None, quantity_zscore = None\<rparr>]"
  let ?s = "[\<lparr>row = sale 1 ''TXN_100002'' 1704078000 110 ''CUST_1002'', anomaly_score = 0,
           amount_zscore = Some 0, quantity_zscore = None\<rparr>]"
  have ne: "night \<noteq> []" by (simp add: night_def)
  have len: "length night < 10" by (simp add: night_def)
  have i: "detect_anomalies (\<lambda>_. None) night ''isolation_forest'' = Inr []"
    using ne len
    by (simp add: detect_anomalies_def prepare_features_empty_iff isolation_forest_detection_def
          length_prepare_features Let_def)
  have s: "detect_anomalies (\<lambda>_. None) night ''statistical'' = Inr ?s"
    using ne by (simp add: detect_anomalies_def prepare_features_empty_iff night_detection Let_def)
  have "loc night [1] = [sale 1 ''TXN_100002'' 1704078000 110 ''CUST_1002'']"
    by (simp add: loc_def night_def sale_def)
  then have c: "detect_anomalies (\<lambda>_. None) night ''combined'' = Inr ?c"
    using ne len
    by (simp add: detect_anomalies_def prepare_features_empty_iff isolation_forest_detection_def
          length_prepare_features night_detection Let_def) (simp add: sale_def)
  from combined_is_union [of "\<lambda>_. None" night] c i s
  have "flagged_labels ?c = flagged_labels [] \<union> flagged_labels ?s" by simp
  with c i s show ?thesis by simp
qed

text \<open>
  C6. A table with fewer than 10 rows has fewer than 10 feature rows, and the
  isolation-forest method returns an empty result on it, called directly or through
  \<open>detect_anomalies\<close>.
\<close>

theorem density_needs_ten_rows:
  assumes "length data < 10"
  shows "length (prepare_features data) < 10
       \<and> isolation_forest_detection forest data (prepare_features data) = []
       \<and> detect_anomalies forest data ''isolation_forest'' = Inr []"
  using assms
  by (simp add: length_prepare_features isolation_forest_detection_def detect_anomalies_def Let_def)

theorem density_needs_ten_rows_witness:
  "length night < 10
   \<and> isolation_forest_detection (\<lambda>_. Some [(-1, -1), (-1, -1), (-1, -1)]) night
        (prepare_features night) = []
   \<and> detect_anomalies (\<lambda>_. Some [(-1, -1), (-1, -1), (-1, -1)]) night ''isolation_forest'' = Inr []"
proof -
  have h: "length night < 10" by (simp add: night_def)
  from density_needs_ten_rows [OF h] h show ?thesis by simp
qed

text \<open>
  C8. The single-transaction check always returns a verdict and never an exception. On an
  empty history the verdict is "not anomalous" with the reason \<open>No historical data\<close>;
  when the computation inside the try-block raises, the verdict is "not anomalous" with
  the reason \<open>Error in detection:\<close> followed by the text of the exception.
\<close>

theorem real_time_never_raises:
  "(\<exists>v. detect_real_time_anomalies new_txn hist th = Inr v)
   \<and> (hist = [] \<longrightarrow>
        detect_real_time_anomalies new_txn hist th = Inr (Not_anomalous ''No historical data'')
        \<and> \<not> is_anomaly (Not_anomalous ''No historical data''))
   \<and> (\<forall>e. hist \<noteq> [] \<and> real_time_body new_txn hist th = Inl e \<longrightarrow>
        detect_real_time_anomalies new_txn hist th
          = Inr (Not_anomalous (''Error in detection: '' @ error_str e))
        \<and> \<not> is_anomaly (Not_anomalous (''Error in detection: '' @ error_str e)))"
  by (auto simp add: detect_real_time_anomalies_def split: sum.splits)

theorem real_time_never_raises_witness:
  "detect_real_time_anomalies (Dict (Some 500) (Some 1) (Some ''Food'')) [] 2
     = Inr (Not_anomalous ''No historical data'')
   \<and> real_time_body (Series None (Some 1) (Some ''Food'')) flat_night 2
     = Inl (KeyError ''total_amount'')
   \<and> detect_real_time_anomalies (Series None (Some 1) (Some ''Food'')) flat_night 2
     = Inr (Not_anomalous (''Error in detection: '' @ error_str (KeyError ''total_amount'')))"
proof -
  have b: "real_time_body (Series None (Some 1) (Some ''Food'')) flat_night 2
             = Inl (KeyError ''total_amount'')"
    by (simp add: real_time_body_def series_get_def)
  have ne: "flat_night \<noteq> []" by (simp add: flat_night_def)
  from real_time_never_raises [of "Dict (Some 500) (Some 1) (Some ''Food'')" "[]" 2]
  have "detect_real_time_anomalies (Dict (Some 500) (Some 1) (Some ''Food'')) [] 2
          = Inr (Not_anomalous ''No historical data'')" by simp
  moreover from real_time_never_raises [of "Series None (Some 1) (Some ''Food'')" flat_night 2] b ne
  have "detect_real_time_anomalies (Series None (Some 1) (Some ''Food'')) flat_night 2
          = Inr (Not_anomalous (''Error in detection: '' @ error_str (KeyError ''total_amount'')))"
    by blast
  ultimately show ?thesis using b by simp
qed

text \<open>
  C9, as amended. For every non-empty transaction table, a method name other than
  \<open>isolation_forest\<close>, \<open>statistical\<close> and \<open>combined\<close> is rejected with a ValueError.
  (On an empty table the emptiness check comes first and returns an empty result.)
\<close>

theorem unsupported_method_rejected:
  assumes "data \<noteq> []"
    and "method \<noteq> ''isolation_forest''" and "method \<noteq> ''statistical''"
    and "method \<noteq> ''combined''"
  shows "detect_anomalies forest data method =
     Inl (ValueError (''Method must be 'isolation_forest', 'statistical', or 'combined'' @ [CHR 0x27]))"
  using assms by (simp add: detect_anomalies_def prepare_features_empty_iff Let_def)

theorem unsupported_method_rejected_witness:
  "night \<noteq> [] \<and> ''kmeans'' \<noteq> ''isolation_forest'' \<and> ''kmeans'' \<noteq> ''statistical''
   \<and> ''kmeans'' \<noteq> ''combined''
   \<and> detect_anomalies (\<lambda>_. None) night ''kmeans'' =
       Inl (ValueError (''Method must be 'isolation_forest', 'statistical', or 'combined'' @ [CHR 0x27]))"
proof -
  have h: "night \<noteq> []" by (simp add: night_def)
  from unsupported_method_rejected [OF h, of "''kmeans''" "\<lambda>_. None"] h show ?thesis by simp
qed

text \<open>
  C9 as stated fails on the empty table: an unsupported method name is not rejected there,
  the call returns an empty result.
\<close>

theorem unsupported_method_on_empty_table_counterexample:
  "detect_anomalies (\<lambda>_. None) [] ''kmeans'' = Inr []"
  by (simp add: detect_anomalies_def)

text \<open>
  C10. When the table is empty, or feature preparation yields an empty table, batch
  detection returns an empty result for every method argument, supported or not: both
  emptiness checks precede the validation of the method name.
\<close>

theorem empty_checks_first:
  assumes "data = [] \<or> prepare_features data = []"
  shows "detect_anomalies forest data method = Inr []"
  using assms by (auto simp add: detect_anomalies_def Let_def)

theorem empty_checks_first_witness:
  "detect_anomalies (\<lambda>_. Some []) [] ''zscore'' = Inr []
   \<and> detect_anomalies (\<lambda>_. Some []) [] ''combined'' = Inr []"
proof -
  have h: "([]::txn list) = [] \<or> prepare_features [] = []" by simp
  from empty_checks_first [OF h, of "\<lambda>_. Some []" "''zscore''"]
       empty_checks_first [OF h, of "\<lambda>_. Some []" "''combined''"]
  show ?thesis by simp
qed

section \<open>Customer segmentation: the claims\<close>










lemma calculate_rfm_metrics_same_day:
  "calculate_rfm_metrics same_day =
     Inl (ValueError ''Bin labels must be one fewer than the number of bin edges'')"
  by code_simp


text \<open>
  C3: the claim is right and the code breaks it. Two customers whose latest purchases fall
  on the same day have the same recency, 0; every quantile edge is 0, the repeated edges
  are dropped, and \<open>pd.qcut\<close> is left with five labels for no bin: it raises ValueError,
  which \<open>calculate_rfm_metrics\<close> does not catch.
\<close>

theorem rfm_raises_on_tied_recency:
  "map recency (rfm_aggregate same_day) = [0, 0]
   \<and> calculate_rfm_metrics same_day =
       Inl (ValueError ''Bin labels must be one fewer than the number of bin edges'')"
proof -
  have "map recency (rfm_aggregate same_day) = [0, 0]" by code_simp
  with calculate_rfm_metrics_same_day show ?thesis by simp
qed

text \<open>
  C4: the claim is right and the code breaks it, by the same defect. The table holds two
  distinct customers and two clusters are asked for; the exception of
  \<open>calculate_rfm_metrics\<close> leaves \<open>segment_customers\<close> before any clustering, whatever
  K-means would have answered.
\<close>

theorem segmentation_raises_on_tied_recency:
  "length (remdups (map customer_id same_day)) = 2
   \<and> segment_customers kmeans same_day 2 =
       Inl (ValueError ''Bin labels must be one fewer than the number of bin edges'')"
proof -
  have "length (remdups (map customer_id same_day)) = 2"
    by (simp add: same_day_def sale_def)
  moreover have "same_day \<noteq> []" by (simp add: same_day_def)
  ultimately show ?thesis
    by (simp add: segment_customers_def calculate_rfm_metrics_same_day)
qed

end
